theory Spec2Isabelle
  imports Complex_Main "HOL-Library.Word"
begin

section \<open>The proctoring hook: data model\<close>

text \<open>
  The development embeds \<^verbatim>\<open>src/hooks/use-proctoring.ts\<close>, a React hook that listens to
  input events, appends records to a pending log and publishes the log every five seconds.

  JavaScript numbers that hold times and pixel sizes (\<^verbatim>\<open>Date.now()\<close>,
  \<^verbatim>\<open>window.innerWidth\<close>, \<^verbatim>\<open>screen.width\<close>) are integers and are modelled as \<open>int\<close>.
  A pointer coordinate is a double and is modelled by the real number it is.

  The free-form payload \<^verbatim>\<open>data: Record<string, any>\<close> is an association list from
  property names to JavaScript values, in the order the object literal lists them.
  \<open>JNum r\<close> is the Number value for the real \<open>r\<close>, that is the double nearest to \<open>r\<close>;
  this is \<open>r\<close> itself for an integer below \<open>2 ^ 53\<close>, for a coordinate, and it is what
  a numeric literal and one division of two such integers give. \<open>JStr\<close> holds a string
  that the source writes as a literal. \<open>JStr16\<close> holds a string that comes from the
  host, as the list of its UTF-16 code units, which is what \<^verbatim>\<open>length\<close> counts. No
  field of a record is written with both kinds of string.
\<close>

type_synonym utf16 = "16 word list"

datatype JSValue = JNum real | JStr string | JStr16 utf16 | JBool bool | JNaN | JInfinity

text \<open>A literal of the source as UTF-16 code units.\<close>

definition utf16 :: "string \<Rightarrow> utf16" where
  "utf16 lit = map of_char lit"

text \<open>
  The window analysis computes with doubles: subtraction, addition, multiplication and
  comparison of Numbers, exponentiation (\<^verbatim>\<open>Math.pow\<close> and \<^verbatim>\<open>**\<close>, one operation of the
  language) and \<^verbatim>\<open>Math.sqrt\<close>. Every one of them rounds its result, and ECMAScript
  leaves the results of exponentiation and of \<^verbatim>\<open>Math.sqrt\<close> to the implementation. The
  model does not fix them: the Number operations of the engine are a parameter of the
  analysis, and everything proved about a tick holds for every engine.
\<close>

record Arith =
  num_sub :: "JSValue \<Rightarrow> JSValue \<Rightarrow> JSValue"
  num_add :: "JSValue \<Rightarrow> JSValue \<Rightarrow> JSValue"
  num_mul :: "JSValue \<Rightarrow> JSValue \<Rightarrow> JSValue"
  num_lt :: "JSValue \<Rightarrow> JSValue \<Rightarrow> bool"
  Math_pow :: "JSValue \<Rightarrow> JSValue \<Rightarrow> JSValue"
  Math_sqrt :: "JSValue \<Rightarrow> JSValue"

type_synonym payload = "(string \<times> JSValue) list"

text \<open>
  \<^verbatim>\<open>interface EventData\<close>. The field \<^verbatim>\<open>type\<close> is called \<open>etype\<close>. The five optional
  fields are \<open>None\<close> when the property is absent or \<^verbatim>\<open>undefined\<close>.
\<close>

record EventData =
  etype :: string
  data :: payload
  timestamp :: int
  device_type :: "string option"
  screen_width :: "int option"
  screen_height :: "int option"
  window_width :: "int option"
  window_height :: "int option"

text \<open>An entry of \<^verbatim>\<open>mousePositions\<close>: \<^verbatim>\<open>{ x, y, timestamp }\<close>.\<close>

record PointerSample =
  pos_x :: real
  pos_y :: real
  pos_timestamp :: int

text \<open>The state \<^verbatim>\<open>deviceInfo\<close>; \<^verbatim>\<open>null\<close> is \<open>None\<close> of the option type.\<close>

record DeviceInfo =
  screenWidth :: int
  screenHeight :: int
  windowWidth :: int
  windowHeight :: int
  deviceType :: string

text \<open>
  What a callback reads from the host when it runs: \<^verbatim>\<open>Date.now()\<close>,
  \<^verbatim>\<open>window.innerWidth\<close>, \<^verbatim>\<open>window.innerHeight\<close>, \<^verbatim>\<open>window.screen.width\<close> and
  \<^verbatim>\<open>window.screen.height\<close>. One callback runs within one millisecond, so every
  \<^verbatim>\<open>Date.now()\<close> of one callback returns the same \<open>Date_now\<close>.
\<close>

record Env =
  Date_now :: int
  innerWidth :: int
  innerHeight :: int
  scr_width :: int
  scr_height :: int

section \<open>Device classification\<close>

text \<open>
  \<^verbatim>\<open>String.prototype.toLowerCase\<close> on the characters a user-agent string is made of:
  the ASCII capitals and the Latin-1 capitals move to their small letters, every other
  character stays.
\<close>

definition lower_char :: "char \<Rightarrow> char" where
  "lower_char c =
     (let n = of_char c :: nat in
      if (65 \<le> n \<and> n \<le> 90) \<or> (192 \<le> n \<and> n \<le> 222 \<and> n \<noteq> 215)
      then char_of (n + 32) else c)"

definition toLowerCase :: "string \<Rightarrow> string" where
  "toLowerCase s = map lower_char s"

text \<open>
  \<^verbatim>\<open>/tok/.test(s)\<close> for a pattern of literal characters: the pattern occurs somewhere
  in \<open>s\<close>. \<open>starts_with\<close> compares at the current position, \<open>regex_test\<close> tries every
  position from left to right.
\<close>

fun starts_with :: "string \<Rightarrow> string \<Rightarrow> bool" where
  "starts_with [] s = True"
| "starts_with (t # ts) [] = False"
| "starts_with (t # ts) (c # cs) = (t = c \<and> starts_with ts cs)"

fun regex_test :: "string \<Rightarrow> string \<Rightarrow> bool" where
  "regex_test tok [] = starts_with tok []"
| "regex_test tok (c # cs) = (starts_with tok (c # cs) \<or> regex_test tok cs)"

text \<open>The alternation \<^verbatim>\<open>/mobile|android|iphone|ipad|ipod/\<close>.\<close>

definition mobile_tokens :: "string list" where
  "mobile_tokens = [''mobile'', ''android'', ''iphone'', ''ipad'', ''ipod'']"

definition regex_test_alt :: "string list \<Rightarrow> string \<Rightarrow> bool" where
  "regex_test_alt toks s = list_ex (\<lambda>tok. regex_test tok s) toks"

definition detectDeviceType :: "string \<Rightarrow> string" where
  "detectDeviceType navigator_userAgent =
     (let userAgent = toLowerCase navigator_userAgent in
      if regex_test_alt mobile_tokens userAgent
      then (if regex_test ''ipad'' userAgent then ''tablet'' else ''mobile'')
      else ''desktop'')"

section \<open>The state of the hook\<close>

text \<open>
  The hook keeps React state (\<^verbatim>\<open>logs\<close>, \<^verbatim>\<open>throttledLogs\<close>, \<^verbatim>\<open>mousePositions\<close>,
  \<^verbatim>\<open>isFocused\<close>, \<^verbatim>\<open>deviceInfo\<close>) and three refs. A ref is read and written in place,
  so every callback sees its current value. React state is different: a callback created
  by an effect reads the constants \<^verbatim>\<open>logs\<close>, \<^verbatim>\<open>mousePositions\<close>, \<^verbatim>\<open>isFocused\<close> and
  \<^verbatim>\<open>deviceInfo\<close> of the render in which the effect ran. The listeners and the interval
  are created by the effect with the dependency array
  \<^verbatim>\<open>[logEvent, getNormalizedThreshold, isFocused]\<close>; \<^verbatim>\<open>logEvent\<close> never changes and
  \<^verbatim>\<open>getNormalizedThreshold\<close> changes with \<^verbatim>\<open>deviceInfo\<close>. So the effect runs again, and
  the callbacks read new values, only after \<^verbatim>\<open>isFocused\<close> or \<^verbatim>\<open>deviceInfo\<close> changed.
  \<open>Closure\<close> holds the four values the registered callbacks read.

  A state setter called with a function (\<^verbatim>\<open>setLogs((prev) => ...)\<close>) is applied to the
  current state; the setters of one callback are applied in the order of the calls.

  The ref \<^verbatim>\<open>inactivityTimerRef\<close> holds the handle of the last \<^verbatim>\<open>setTimeout\<close>.
  \<^verbatim>\<open>clearTimeout\<close> of a handle that fired or was cleared does nothing, so the model keeps
  what can be observed: \<open>inactivityTimer\<close> is \<open>Some d\<close> while a timeout is pending that
  is due at time \<open>d\<close>, and \<open>None\<close> otherwise.
\<close>

record Closure =
  cl_logs :: "EventData list"
  cl_mousePositions :: "PointerSample list"
  cl_isFocused :: bool
  cl_deviceInfo :: "DeviceInfo option"

record Hook =
  logs :: "EventData list"
  throttledLogs :: "EventData list"
  mousePositions :: "PointerSample list"
  isFocused :: bool
  lastMouseMoveTime :: int
  lastResizeTime :: int
  inactivityTimer :: "int option"
  deviceInfo :: "DeviceInfo option"
  closure :: Closure

definition MOUSE_THROTTLE :: int where
  "MOUSE_THROTTLE = 500"

definition RESIZE_THROTTLE :: int where
  "RESIZE_THROTTLE = 500"

text \<open>The values of \<^verbatim>\<open>useState\<close> and \<^verbatim>\<open>useRef\<close> in the first render.\<close>

definition init :: Hook where
  "init = \<lparr>logs = [], throttledLogs = [], mousePositions = [], isFocused = True,
     lastMouseMoveTime = 0, lastResizeTime = 0, inactivityTimer = None, deviceInfo = None,
     closure = \<lparr>cl_logs = [], cl_mousePositions = [], cl_isFocused = True,
       cl_deviceInfo = None\<rparr>\<rparr>"

section \<open>The callbacks\<close>

definition mkEvent :: "Env \<Rightarrow> string \<Rightarrow> payload \<Rightarrow> EventData" where
  "mkEvent env ty d =
     \<lparr>etype = ty, data = d, timestamp = Date_now env, device_type = None,
      screen_width = None, screen_height = None,
      window_width = Some (innerWidth env), window_height = Some (innerHeight env)\<rparr>"

definition logEvent :: "Env \<Rightarrow> string \<Rightarrow> payload \<Rightarrow> Hook \<Rightarrow> Hook" where
  "logEvent env ty d s = s\<lparr>logs := logs s @ [mkEvent env ty d]\<rparr>"

definition getNormalizedThreshold :: "Arith \<Rightarrow> DeviceInfo option \<Rightarrow> JSValue" where
  "getNormalizedThreshold ar di =
     (case di of
        Some d \<Rightarrow>
          (let diagonal = Math_sqrt ar
                 (num_add ar (Math_pow ar (JNum (real_of_int (screenWidth d))) (JNum 2))
                             (Math_pow ar (JNum (real_of_int (screenHeight d))) (JNum 2)))
           in num_mul ar (JNum 0.005) diagonal)
      | None \<Rightarrow> JNum 10)"

text \<open>The first effect: it reads the screen and the window once and sets \<^verbatim>\<open>deviceInfo\<close>.\<close>

definition deviceInfoEffect :: "Env \<Rightarrow> string \<Rightarrow> Hook \<Rightarrow> Hook" where
  "deviceInfoEffect env navigator_userAgent s =
     s\<lparr>deviceInfo := Some \<lparr>screenWidth = scr_width env, screenHeight = scr_height env,
          windowWidth = innerWidth env, windowHeight = innerHeight env,
          deviceType = detectDeviceType navigator_userAgent\<rparr>\<rparr>"

text \<open>
  \<^verbatim>\<open>setTimeout(() => logEvent("inactivity", { duration: 3000 }), 3000)\<close> after
  \<^verbatim>\<open>clearTimeout\<close> of the handle in the ref: the pending timeout, if any, is replaced.
\<close>

definition resetInactivityTimer :: "Env \<Rightarrow> Hook \<Rightarrow> Hook" where
  "resetInactivityTimer env s = s\<lparr>inactivityTimer := Some (Date_now env + 3000)\<rparr>"

text \<open>The timeout's callback; it runs only when a timeout is pending and due.\<close>

definition inactivityCallback :: "Env \<Rightarrow> Hook \<Rightarrow> Hook" where
  "inactivityCallback env s =
     (case inactivityTimer s of
        Some due \<Rightarrow>
          if due \<le> Date_now env
          then logEvent env ''inactivity'' [(''duration'', JNum 3000)] (s\<lparr>inactivityTimer := None\<rparr>)
          else s
      | None \<Rightarrow> s)"

definition handleMouseMove :: "Env \<Rightarrow> real \<Rightarrow> real \<Rightarrow> Hook \<Rightarrow> Hook" where
  "handleMouseMove env x y s =
     (let now = Date_now env in
      if now - lastMouseMoveTime s \<ge> MOUSE_THROTTLE then
        let s1 = logEvent env ''mouse_move'' [(''x'', JNum x), (''y'', JNum y)] s;
            s2 = s1\<lparr>mousePositions := mousePositions s1 @ [\<lparr>pos_x = x, pos_y = y, pos_timestamp = now\<rparr>]\<rparr>;
            s3 = s2\<lparr>lastMouseMoveTime := now\<rparr>
        in resetInactivityTimer env s3
      else s)"

text \<open>
  \<^verbatim>\<open>window.getSelection()?.toString()?.length || 0\<close> and
  \<^verbatim>\<open>event.clipboardData?.getData('text')?.length || 0\<close>: the text may be missing.
\<close>

definition text_length :: "string option \<Rightarrow> JSValue" where
  "text_length t = (case t of Some txt \<Rightarrow> JNum (real (length txt)) | None \<Rightarrow> JNum 0)"

definition handleCopy :: "Env \<Rightarrow> string option \<Rightarrow> Hook \<Rightarrow> Hook" where
  "handleCopy env selection s =
     logEvent env ''clipboard'' [(''action'', JStr ''copy''), (''selection'', text_length selection)] s"

definition handlePaste :: "Env \<Rightarrow> string option \<Rightarrow> Hook \<Rightarrow> Hook" where
  "handlePaste env clipboardText s =
     logEvent env ''clipboard'' [(''action'', JStr ''paste''), (''length'', text_length clipboardText)] s"

definition handleCut :: "Env \<Rightarrow> string option \<Rightarrow> Hook \<Rightarrow> Hook" where
  "handleCut env selection s =
     logEvent env ''clipboard'' [(''action'', JStr ''cut''), (''selection'', text_length selection)] s"

text \<open>
  \<^verbatim>\<open>window.innerWidth / window.screen.width\<close>: JavaScript division, which gives
  \<^verbatim>\<open>NaN\<close> for 0/0, an infinity for a division of another number by zero, and
  otherwise the Number value for the quotient.
\<close>

definition js_ratio :: "int \<Rightarrow> int \<Rightarrow> JSValue" where
  "js_ratio a b =
     (if b = 0 then (if a = 0 then JNaN else JInfinity)
      else JNum (real_of_int a / real_of_int b))"

definition handleResize :: "Env \<Rightarrow> Hook \<Rightarrow> Hook" where
  "handleResize env s =
     (let now = Date_now env in
      if now - lastResizeTime s \<ge> RESIZE_THROTTLE then
        let s1 = logEvent env ''window_resize''
                   [(''width'', JNum (real_of_int (innerWidth env))),
                    (''height'', JNum (real_of_int (innerHeight env))),
                    (''ratio'', js_ratio (innerWidth env) (scr_width env))] s
        in s1\<lparr>lastResizeTime := now\<rparr>
      else s)"

text \<open>
  \<^verbatim>\<open>event.key\<close> is a string of the host; \<^verbatim>\<open>length\<close> counts its UTF-16 code units, so
  a character outside the Basic Multilingual Plane has length 2.
\<close>

definition handleKeyDown :: "Env \<Rightarrow> utf16 \<Rightarrow> Hook \<Rightarrow> Hook" where
  "handleKeyDown env key s =
     (let keyType = (if length key = 1 then utf16 ''character'' else key);
          s1 = logEvent env ''key_press'' [(''key_type'', JStr16 keyType)] s
      in resetInactivityTimer env s1)"

definition handleVisibilityChange :: "Env \<Rightarrow> bool \<Rightarrow> Hook \<Rightarrow> Hook" where
  "handleVisibilityChange env document_hidden s =
     logEvent env ''tab_switch''
       [(''status'', JStr (if document_hidden then ''hidden'' else ''visible''))] s"

text \<open>The focus handlers read \<^verbatim>\<open>isFocused\<close> of their closure and set the state.\<close>

definition handleFocus :: "Env \<Rightarrow> Hook \<Rightarrow> Hook" where
  "handleFocus env s =
     (if \<not> cl_isFocused (closure s)
      then logEvent env ''window_state_change'' [(''state'', JStr ''focused'')] (s\<lparr>isFocused := True\<rparr>)
      else s)"

definition handleBlur :: "Env \<Rightarrow> Hook \<Rightarrow> Hook" where
  "handleBlur env s =
     (if cl_isFocused (closure s)
      then logEvent env ''window_state_change'' [(''state'', JStr ''blurred'')] (s\<lparr>isFocused := False\<rparr>)
      else s)"

section \<open>The periodic tick\<close>

text \<open>\<^verbatim>\<open>Array.prototype.findIndex\<close>: the index of the first match, or \<open>-1\<close>.\<close>

fun findIndex :: "('a \<Rightarrow> bool) \<Rightarrow> 'a list \<Rightarrow> int" where
  "findIndex P [] = -1"
| "findIndex P (x # xs) =
     (if P x then 0 else (let i = findIndex P xs in if i \<ge> 0 then i + 1 else -1))"

definition recentSamples :: "int \<Rightarrow> PointerSample list \<Rightarrow> PointerSample list" where
  "recentSamples windowStart ps = filter (\<lambda>pos. pos_timestamp pos \<ge> windowStart) ps"

text \<open>
  Lines 159 to 168: the analysis of the samples the callback reads. The two index reads
  are in range because the list has at least two elements.
\<close>

definition analyzeMouse :: "Arith \<Rightarrow> Env \<Rightarrow> Closure \<Rightarrow> Hook \<Rightarrow> Hook" where
  "analyzeMouse ar env c s =
     (let windowStart = Date_now env - 5000;
          recentMouseData = recentSamples windowStart (cl_mousePositions c)
      in if length recentMouseData \<ge> 2 then
           let second2Index = findIndex (\<lambda>pos. pos_timestamp pos \<ge> windowStart + 2000) recentMouseData;
               second2 = (if second2Index \<ge> 0 then recentMouseData ! nat second2Index
                          else recentMouseData ! 0);
               second5 = recentMouseData ! (length recentMouseData - 1);
               distance = Math_sqrt ar
                 (num_add ar
                    (Math_pow ar (num_sub ar (JNum (pos_x second5)) (JNum (pos_x second2))) (JNum 2))
                    (Math_pow ar (num_sub ar (JNum (pos_y second5)) (JNum (pos_y second2))) (JNum 2)));
               normalizedThreshold = getNormalizedThreshold ar (cl_deviceInfo c)
           in logEvent env ''mouse_analysis''
                [(''distance'', distance),
                 (''minimalMovement'', JBool (num_lt ar distance normalizedThreshold))] s
         else s)"

text \<open>The object spread of lines 172 to 179, applied to one record of the log.\<close>

definition withDeviceInfo :: "DeviceInfo option \<Rightarrow> EventData \<Rightarrow> EventData" where
  "withDeviceInfo di entry =
     entry\<lparr>device_type := map_option deviceType di,
         screen_width := map_option screenWidth di,
         screen_height := map_option screenHeight di,
         window_width := map_option windowWidth di,
         window_height := map_option windowHeight di\<rparr>"

text \<open>
  The state after the two \<^verbatim>\<open>logEvent\<close> calls of a tick whose guard holds, before the
  batch is published and the log is reset.
\<close>

definition tickLogged :: "Arith \<Rightarrow> Env \<Rightarrow> Hook \<Rightarrow> Hook" where
  "tickLogged ar env s =
     (let c = closure s;
          s1 = analyzeMouse ar env c s
      in logEvent env ''focus_state'' [(''isFocused'', JBool (cl_isFocused c))] s1)"

definition tick :: "Arith \<Rightarrow> Env \<Rightarrow> Hook \<Rightarrow> Hook" where
  "tick ar env s =
     (let c = closure s in
      if length (cl_logs c) > 0 then
        let windowStart = Date_now env - 5000;
            s2 = tickLogged ar env s;
            logsWithDeviceInfo = map (withDeviceInfo (cl_deviceInfo c)) (cl_logs c);
            s3 = s2\<lparr>throttledLogs := logsWithDeviceInfo\<rparr>;
            s4 = s3\<lparr>logs := []\<rparr>
        in s4\<lparr>mousePositions := recentSamples windowStart (mousePositions s4)\<rparr>
      else s)"

text \<open>The records a tick passes to \<^verbatim>\<open>logEvent\<close>, in the order of the calls.\<close>

definition tickEmits :: "Arith \<Rightarrow> Env \<Rightarrow> Hook \<Rightarrow> EventData list" where
  "tickEmits ar env s =
     (if length (cl_logs (closure s)) > 0
      then drop (length (logs s)) (logs (tickLogged ar env s))
      else [])"

section \<open>Renders, notifications and runs\<close>

text \<open>
  After a callback React renders with the new state. When \<^verbatim>\<open>isFocused\<close> or
  \<^verbatim>\<open>deviceInfo\<close> differs from the value of the render that registered the callbacks, the
  effect's cleanup runs (it removes the listeners, clears the interval and clears the
  pending inactivity timeout) and the effect registers new callbacks, which read the
  state of this render. The updates of one callback are rendered together.
\<close>

definition capture :: "Hook \<Rightarrow> Closure" where
  "capture s = \<lparr>cl_logs = logs s, cl_mousePositions = mousePositions s,
     cl_isFocused = isFocused s, cl_deviceInfo = deviceInfo s\<rparr>"

definition depsChanged :: "Hook \<Rightarrow> bool" where
  "depsChanged s =
     (cl_deviceInfo (closure s) \<noteq> deviceInfo s \<or> cl_isFocused (closure s) \<noteq> isFocused s)"

definition effectCleanup :: "Hook \<Rightarrow> Hook" where
  "effectCleanup s = s\<lparr>inactivityTimer := None\<rparr>"

definition rerender :: "Hook \<Rightarrow> Hook" where
  "rerender s = (if depsChanged s then (effectCleanup s)\<lparr>closure := capture s\<rparr> else s)"

datatype Event =
    MouseMove real real
  | KeyDown utf16
  | VisibilityChange bool
  | Copy "string option"
  | Paste "string option"
  | Cut "string option"
  | Resize
  | Focus
  | Blur
  | IntervalTick
  | InactivityTimeout

fun handle :: "Arith \<Rightarrow> Env \<Rightarrow> Event \<Rightarrow> Hook \<Rightarrow> Hook" where
  "handle ar env (MouseMove x y) s = handleMouseMove env x y s"
| "handle ar env (KeyDown key) s = handleKeyDown env key s"
| "handle ar env (VisibilityChange hidden) s = handleVisibilityChange env hidden s"
| "handle ar env (Copy sel) s = handleCopy env sel s"
| "handle ar env (Paste txt) s = handlePaste env txt s"
| "handle ar env (Cut sel) s = handleCut env sel s"
| "handle ar env Resize s = handleResize env s"
| "handle ar env Focus s = handleFocus env s"
| "handle ar env Blur s = handleBlur env s"
| "handle ar env IntervalTick s = tick ar env s"
| "handle ar env InactivityTimeout s = inactivityCallback env s"

definition notify :: "Arith \<Rightarrow> Env \<Rightarrow> Event \<Rightarrow> Hook \<Rightarrow> Hook" where
  "notify ar env e s = rerender (handle ar env e s)"

text \<open>A run of notifications on an engine with the Number operations \<open>ar\<close>.\<close>

fun run :: "Arith \<Rightarrow> (Env \<times> Event) list \<Rightarrow> Hook \<Rightarrow> Hook" where
  "run ar [] s = s"
| "run ar ((env, e) # es) s = run ar es (notify ar env e s)"

text \<open>Mounting: the first render, then the device effect and the render it causes.\<close>

definition mount :: "Env \<Rightarrow> string \<Rightarrow> Hook" where
  "mount env navigator_userAgent = rerender (deviceInfoEffect env navigator_userAgent init)"

text \<open>A host with a 1280 by 720 window on a 1920 by 1080 screen, at time \<open>t\<close>.\<close>

definition host :: "int \<Rightarrow> Env" where
  "host t = \<lparr>Date_now = t, innerWidth = 1280, innerHeight = 720, scr_width = 1920, scr_height = 1080\<rparr>"

section \<open>Notions of the specification\<close>

text \<open>The specification's notion of a substring match, stated without the scanning loop.\<close>

definition occurs_in :: "string \<Rightarrow> string \<Rightarrow> bool" where
  "occurs_in tok s = (\<exists>before after. s = before @ tok @ after)"


text \<open>
  The throttle as the specification states it: going through the pointer-move
  notifications in order, one is accepted when at least 500 ms passed since the last
  accepted one, and every other notification leaves no trace. \<open>lastTime\<close> is the time of
  the last accepted notification.
\<close>

fun accepted :: "int \<Rightarrow> (Env \<times> real \<times> real) list \<Rightarrow> (Env \<times> real \<times> real) list" where
  "accepted lastTime [] = []"
| "accepted lastTime ((env, x, y) # ms) =
     (if Date_now env - lastTime \<ge> 500 then (env, x, y) # accepted (Date_now env) ms
      else accepted lastTime ms)"

definition pointerMoves :: "(Env \<times> real \<times> real) list \<Rightarrow> (Env \<times> Event) list" where
  "pointerMoves ms = map (\<lambda>(env, x, y). (env, MouseMove x y)) ms"

definition mouseMoveRecord :: "Env \<times> real \<times> real \<Rightarrow> EventData" where
  "mouseMoveRecord m = (case m of (env, x, y) \<Rightarrow> mkEvent env ''mouse_move'' [(''x'', JNum x), (''y'', JNum y)])"

text \<open>A notification falls into the 500 ms window that starts at \<open>a\<close>.\<close>

definition inWindow :: "int \<Rightarrow> Env \<times> real \<times> real \<Rightarrow> bool" where
  "inWindow a m = (a \<le> Date_now (fst m) \<and> Date_now (fst m) < a + 500)"

text \<open>
  Focus tracking as the specification states it: a record is due exactly when a
  notification flips the two-state flag. \<open>focusFlips f es\<close> counts the flips of a flag
  that starts as \<open>f\<close>; \<open>nextFocus\<close> is the flag after one notification.
\<close>

definition isStateChange :: "EventData \<Rightarrow> bool" where
  "isStateChange r = (etype r = ''window_state_change'')"

fun focusFlips :: "bool \<Rightarrow> Event list \<Rightarrow> nat" where
  "focusFlips f [] = 0"
| "focusFlips f (Focus # es) = (if f then focusFlips f es else Suc (focusFlips True es))"
| "focusFlips f (Blur # es) = (if f then Suc (focusFlips False es) else focusFlips f es)"
| "focusFlips f (e # es) = focusFlips f es"

definition noTick :: "Event \<Rightarrow> bool" where
  "noTick e = (e \<noteq> IntervalTick)"

definition nextFocus :: "bool \<Rightarrow> Event \<Rightarrow> bool" where
  "nextFocus f e = (case e of Focus \<Rightarrow> True | Blur \<Rightarrow> False | _ \<Rightarrow> f)"

text \<open>The device information of the session: what the first effect stores at mount time.\<close>

definition sessionInfo :: "Env \<Rightarrow> string \<Rightarrow> DeviceInfo" where
  "sessionInfo env0 ua = \<lparr>screenWidth = scr_width env0, screenHeight = scr_height env0,
     windowWidth = innerWidth env0, windowHeight = innerHeight env0,
     deviceType = detectDeviceType ua\<rparr>"

text \<open>No sample of the position buffer is older than the 5000 ms before \<open>now\<close>.\<close>

definition noStaleSamples :: "int \<Rightarrow> PointerSample list \<Rightarrow> bool" where
  "noStaleSamples now ps = list_all (\<lambda>pos. pos_timestamp pos \<ge> now - 5000) ps"

text \<open>
  The samples of the window analysis as the specification states them: S2 is the first
  retained sample at least 2000 ms after the start of the window, or the earliest
  retained sample when there is none; S5 is the last retained sample. \<open>euclid\<close> is the
  distance of two samples as the engine computes it, and \<open>analysisRecord\<close> the record
  that the analysis of S2 and S5 emits.
\<close>

definition euclid :: "Arith \<Rightarrow> PointerSample \<Rightarrow> PointerSample \<Rightarrow> JSValue" where
  "euclid ar p q =
     Math_sqrt ar
       (num_add ar (Math_pow ar (num_sub ar (JNum (pos_x q)) (JNum (pos_x p))) (JNum 2))
                   (Math_pow ar (num_sub ar (JNum (pos_y q)) (JNum (pos_y p))) (JNum 2)))"

definition refS2 :: "int \<Rightarrow> PointerSample list \<Rightarrow> PointerSample" where
  "refS2 windowStart retained =
     (case find (\<lambda>pos. pos_timestamp pos \<ge> windowStart + 2000) retained of
        Some p \<Rightarrow> p
      | None \<Rightarrow> hd retained)"

definition refS5 :: "PointerSample list \<Rightarrow> PointerSample" where
  "refS5 retained = last retained"

definition analysisRecord :: "Arith \<Rightarrow> Env \<Rightarrow> DeviceInfo option \<Rightarrow> PointerSample \<Rightarrow> PointerSample \<Rightarrow> EventData" where
  "analysisRecord ar env di s2 s5 =
     mkEvent env ''mouse_analysis''
       [(''distance'', euclid ar s2 s5),
        (''minimalMovement'', JBool (num_lt ar (euclid ar s2 s5) (getNormalizedThreshold ar di)))]"

section \<open>Device classification: proofs\<close>

lemma starts_with_iff: "starts_with tok s = (\<exists>after. s = tok @ after)"
  by (induction tok s rule: starts_with.induct) auto

lemma regex_test_iff: "regex_test tok s = occurs_in tok s"
proof (induction s)
  case Nil
  show ?case by (auto simp: starts_with_iff occurs_in_def)
next
  case (Cons c cs)
  show ?case
  proof
    assume "regex_test tok (c # cs)"
    then consider "starts_with tok (c # cs)" | "regex_test tok cs" by auto
    then show "occurs_in tok (c # cs)"
    proof cases
      case 1
      then obtain after where "c # cs = tok @ after" by (auto simp: starts_with_iff)
      then have "c # cs = [] @ tok @ after" by simp
      then show ?thesis unfolding occurs_in_def by blast
    next
      case 2
      with Cons obtain before after where "cs = before @ tok @ after"
        by (auto simp: occurs_in_def)
      then have "c # cs = (c # before) @ tok @ after" by simp
      then show ?thesis unfolding occurs_in_def by blast
    qed
  next
    assume "occurs_in tok (c # cs)"
    then obtain before after where eq: "c # cs = before @ tok @ after"
      by (auto simp: occurs_in_def)
    show "regex_test tok (c # cs)"
    proof (cases before)
      case Nil
      with eq have "starts_with tok (c # cs)" by (auto simp: starts_with_iff)
      then show ?thesis by simp
    next
      case (Cons b bs)
      with eq have "cs = bs @ tok @ after" by simp
      then have "occurs_in tok cs" unfolding occurs_in_def by blast
      with Cons.IH show ?thesis by simp
    qed
  qed
qed

text \<open>
  C8. For every user-agent string the classification is total and decided by substring
  matches on the lower-cased string: it is \<open>''tablet''\<close> exactly when the tablet token
  \<open>ipad\<close> occurs, \<open>''mobile''\<close> exactly when one of the tokens mobile, android, iphone,
  ipod occurs and \<open>ipad\<close> does not, and \<open>''desktop''\<close> exactly when no token occurs.
\<close>

theorem C8_detectDeviceType_classifies:
  "(detectDeviceType ua = ''tablet'' \<longleftrightarrow> occurs_in ''ipad'' (toLowerCase ua)) \<and>
   (detectDeviceType ua = ''mobile'' \<longleftrightarrow>
      \<not> occurs_in ''ipad'' (toLowerCase ua) \<and>
      (occurs_in ''mobile'' (toLowerCase ua) \<or> occurs_in ''android'' (toLowerCase ua) \<or>
       occurs_in ''iphone'' (toLowerCase ua) \<or> occurs_in ''ipod'' (toLowerCase ua))) \<and>
   (detectDeviceType ua = ''desktop'' \<longleftrightarrow>
      \<not> (occurs_in ''mobile'' (toLowerCase ua) \<or> occurs_in ''android'' (toLowerCase ua) \<or>
         occurs_in ''iphone'' (toLowerCase ua) \<or> occurs_in ''ipad'' (toLowerCase ua) \<or>
         occurs_in ''ipod'' (toLowerCase ua))) \<and>
   detectDeviceType ua \<in> {''tablet'', ''mobile'', ''desktop''}"
  by (simp add: detectDeviceType_def regex_test_alt_def mobile_tokens_def
      regex_test_iff Let_def)

theorem C8_detectDeviceType_witness:
  "detectDeviceType ''Mozilla/5.0 (iPad; CPU OS 16_0)'' = ''tablet'' \<and>
   detectDeviceType ''Mozilla/5.0 (Linux; Android 13) Mobile'' = ''mobile'' \<and>
   detectDeviceType ''Mozilla/5.0 (X11; Linux x86_64)'' = ''desktop''"
proof -
  have a: "occurs_in ''ipad'' (toLowerCase ''Mozilla/5.0 (iPad; CPU OS 16_0)'')"
    unfolding regex_test_iff [symmetric] by code_simp
  have b: "\<not> occurs_in ''ipad'' (toLowerCase ''Mozilla/5.0 (Linux; Android 13) Mobile'')"
    unfolding regex_test_iff [symmetric] by code_simp
  have c: "occurs_in ''android'' (toLowerCase ''Mozilla/5.0 (Linux; Android 13) Mobile'')"
    unfolding regex_test_iff [symmetric] by code_simp
  have d: "\<not> occurs_in ''mobile'' (toLowerCase ''Mozilla/5.0 (X11; Linux x86_64)'')"
    "\<not> occurs_in ''android'' (toLowerCase ''Mozilla/5.0 (X11; Linux x86_64)'')"
    "\<not> occurs_in ''iphone'' (toLowerCase ''Mozilla/5.0 (X11; Linux x86_64)'')"
    "\<not> occurs_in ''ipad'' (toLowerCase ''Mozilla/5.0 (X11; Linux x86_64)'')"
    "\<not> occurs_in ''ipod'' (toLowerCase ''Mozilla/5.0 (X11; Linux x86_64)'')"
    unfolding regex_test_iff [symmetric] by code_simp+
  from a b c d C8_detectDeviceType_classifies [of "''Mozilla/5.0 (iPad; CPU OS 16_0)''"]
    C8_detectDeviceType_classifies [of "''Mozilla/5.0 (Linux; Android 13) Mobile''"]
    C8_detectDeviceType_classifies [of "''Mozilla/5.0 (X11; Linux x86_64)''"]
  show ?thesis by blast
qed

section \<open>The throttle, the clipboard and the keyboard\<close>

lemma rerender_logs [simp]: "logs (rerender s) = logs s"
  by (simp add: rerender_def effectCleanup_def)

lemma rerender_lastMouseMoveTime [simp]: "lastMouseMoveTime (rerender s) = lastMouseMoveTime s"
  by (simp add: rerender_def effectCleanup_def)

lemma handleMouseMove_accept:
  "Date_now env - lastMouseMoveTime s \<ge> 500 \<Longrightarrow>
     logs (handleMouseMove env x y s) = logs s @ [mouseMoveRecord (env, x, y)] \<and>
     lastMouseMoveTime (handleMouseMove env x y s) = Date_now env"
  by (simp add: handleMouseMove_def MOUSE_THROTTLE_def logEvent_def resetInactivityTimer_def
      mouseMoveRecord_def Let_def)

lemma handleMouseMove_drop:
  "Date_now env - lastMouseMoveTime s < 500 \<Longrightarrow> handleMouseMove env x y s = s"
  by (simp add: handleMouseMove_def MOUSE_THROTTLE_def)

lemma run_pointerMoves_logs:
  "logs (run ar (pointerMoves ms) s) = logs s @ map mouseMoveRecord (accepted (lastMouseMoveTime s) ms) \<and>
   lastMouseMoveTime (run ar (pointerMoves ms) s) \<ge> lastMouseMoveTime s"
proof (induction ms arbitrary: s)
  case Nil
  show ?case by (simp add: pointerMoves_def)
next
  case (Cons m ms)
  obtain env x y where m: "m = (env, x, y)" by (cases m) auto
  show ?case
  proof (cases "Date_now env - lastMouseMoveTime s \<ge> 500")
    case True
    from handleMouseMove_accept [OF True, of x y] Cons.IH [of "notify ar env (MouseMove x y) s"]
    show ?thesis using True by (simp add: m pointerMoves_def notify_def)
  next
    case False
    then have "handleMouseMove env x y s = s" by (simp add: handleMouseMove_drop)
    with Cons.IH [of "notify ar env (MouseMove x y) s"] False
    show ?thesis by (simp add: m pointerMoves_def notify_def)
  qed
qed

lemma accepted_after: "m \<in> set (accepted lastTime ms) \<Longrightarrow> Date_now (fst m) \<ge> lastTime + 500"
proof (induction ms arbitrary: lastTime)
  case Nil
  then show ?case by simp
next
  case (Cons a ms)
  obtain env x y where a: "a = (env, x, y)" by (cases a) auto
  show ?case
  proof (cases "Date_now env - lastTime \<ge> 500")
    case True
    with Cons.prems a have "m = (env, x, y) \<or> m \<in> set (accepted (Date_now env) ms)" by simp
    then show ?thesis
    proof
      assume "m = (env, x, y)" with True show ?thesis by simp
    next
      assume "m \<in> set (accepted (Date_now env) ms)"
      from Cons.IH [OF this] True show ?thesis by simp
    qed
  next
    case False
    with Cons.prems a have "m \<in> set (accepted lastTime ms)" by simp
    from Cons.IH [OF this] show ?thesis .
  qed
qed

lemma accepted_one_per_window:
  "length (filter (inWindow a) (accepted lastTime ms)) \<le> 1"
proof (induction ms arbitrary: lastTime)
  case Nil
  show ?case by simp
next
  case (Cons m ms)
  obtain env x y where m: "m = (env, x, y)" by (cases m) auto
  show ?case
  proof (cases "Date_now env - lastTime \<ge> 500")
    case True
    show ?thesis
    proof (cases "inWindow a (env, x, y)")
      case inw: True
      have "filter (inWindow a) (accepted (Date_now env) ms) = []"
      proof -
        have "\<not> inWindow a k" if "k \<in> set (accepted (Date_now env) ms)" for k
          using accepted_after [OF that] inw by (simp add: inWindow_def)
        then show ?thesis by (simp add: filter_empty_conv)
      qed
      with True inw show ?thesis by (simp add: m)
    next
      case False
      with True Cons.IH [of "Date_now env"] show ?thesis by (simp add: m)
    qed
  next
    case False
    with Cons.IH [of lastTime] show ?thesis by (simp add: m)
  qed
qed

text \<open>
  C4. For every sequence of pointer-move notifications the records appended to the log
  are those of the notifications the throttle accepts: the first one at least 500 ms
  after the last accepted one, and then the first one of every following window. Every
  500 ms window holds at most one accepted notification. A notification less than
  500 ms after the last accepted one leaves the whole state unchanged, so it is neither
  queued nor merged. Resize notifications are gated in the same way by their own
  timestamp: neither handler changes the other's timestamp.
\<close>

theorem C4_throttle_gate:
  "logs (run ar (pointerMoves ms) s) = logs s @ map mouseMoveRecord (accepted (lastMouseMoveTime s) ms) \<and>
   length (filter (inWindow a) (accepted (lastMouseMoveTime s) ms)) \<le> 1 \<and>
   (Date_now env - lastMouseMoveTime s < 500 \<longrightarrow> handleMouseMove env x y s = s) \<and>
   (Date_now env - lastMouseMoveTime s \<ge> 500 \<longrightarrow>
      logs (handleMouseMove env x y s) = logs s @ [mouseMoveRecord (env, x, y)]) \<and>
   (Date_now env - lastResizeTime s < 500 \<longrightarrow> handleResize env s = s) \<and>
   (Date_now env - lastResizeTime s \<ge> 500 \<longrightarrow>
      logs (handleResize env s) = logs s @ [mkEvent env ''window_resize''
         [(''width'', JNum (real_of_int (innerWidth env))),
          (''height'', JNum (real_of_int (innerHeight env))),
          (''ratio'', js_ratio (innerWidth env) (scr_width env))]] \<and>
      lastResizeTime (handleResize env s) = Date_now env) \<and>
   lastResizeTime (handleMouseMove env x y s) = lastResizeTime s \<and>
   lastMouseMoveTime (handleResize env s) = lastMouseMoveTime s"
proof -
  have r1: "lastResizeTime (handleMouseMove env x y s) = lastResizeTime s"
    by (simp add: handleMouseMove_def logEvent_def resetInactivityTimer_def Let_def)
  have r2: "lastMouseMoveTime (handleResize env s) = lastMouseMoveTime s"
    by (simp add: handleResize_def logEvent_def Let_def)
  have r3: "Date_now env - lastResizeTime s < 500 \<longrightarrow> handleResize env s = s"
    by (simp add: handleResize_def RESIZE_THROTTLE_def)
  have r4: "Date_now env - lastResizeTime s \<ge> 500 \<longrightarrow>
      logs (handleResize env s) = logs s @ [mkEvent env ''window_resize''
         [(''width'', JNum (real_of_int (innerWidth env))),
          (''height'', JNum (real_of_int (innerHeight env))),
          (''ratio'', js_ratio (innerWidth env) (scr_width env))]] \<and>
      lastResizeTime (handleResize env s) = Date_now env"
    by (simp add: handleResize_def RESIZE_THROTTLE_def logEvent_def Let_def)
  show ?thesis
    using r1 r2 r3 r4 accepted_one_per_window [of a "lastMouseMoveTime s" ms]
    by (simp add: run_pointerMoves_logs handleMouseMove_drop handleMouseMove_accept)
qed

theorem C4_throttle_gate_witness:
  "\<forall>ar. logs (run ar (pointerMoves [(host 1000, 1, 1), (host 1200, 2, 2), (host 1499, 3, 3),
       (host 1500, 4, 4)]) init) =
     [mouseMoveRecord (host 1000, 1, 1), mouseMoveRecord (host 1500, 4, 4)] \<and>
   handleMouseMove (host 400) 1 1 init = init \<and>
   handleResize (host 400) init = init \<and>
   lastResizeTime (handleResize (host 1000) init) = 1000 \<and>
   lastResizeTime (handleMouseMove (host 1000) 1 1 init) = 0"
proof
  fix ar
  show "logs (run ar (pointerMoves [(host 1000, 1, 1), (host 1200, 2, 2), (host 1499, 3, 3),
       (host 1500, 4, 4)]) init) =
     [mouseMoveRecord (host 1000, 1, 1), mouseMoveRecord (host 1500, 4, 4)] \<and>
   handleMouseMove (host 400) 1 1 init = init \<and>
   handleResize (host 400) init = init \<and>
   lastResizeTime (handleResize (host 1000) init) = 1000 \<and>
   lastResizeTime (handleMouseMove (host 1000) 1 1 init) = 0"
    using C4_throttle_gate [of ar "[(host 1000, 1, 1), (host 1200, 2, 2), (host 1499, 3, 3),
         (host 1500, 4, 4)]" init 0 "host 400" 1 1]
      C4_throttle_gate [of ar "[]" init 0 "host 1000" 1 1]
    by (simp add: host_def init_def)
qed

text \<open>
  C7. A copy, cut or paste notification appends one record of type \<open>clipboard\<close> whose
  payload is the action name and the length of the text, under the key \<open>selection\<close> for
  copy and cut and \<open>length\<close> for paste, and nothing else. Two texts of the same length
  give the same state after the handler, and a selection of 50 characters gives the
  payload \<open>action = copy, selection = 50\<close>.
\<close>

theorem C7_clipboard_length_only:
  "(length t1 = length t2 \<longrightarrow>
      handleCopy env (Some t1) s = handleCopy env (Some t2) s \<and>
      handleCut env (Some t1) s = handleCut env (Some t2) s \<and>
      handlePaste env (Some t1) s = handlePaste env (Some t2) s) \<and>
   logs (handleCopy env (Some t) s) =
      logs s @ [\<lparr>etype = ''clipboard'', data = [(''action'', JStr ''copy''), (''selection'', JNum (real (length t)))],
         timestamp = Date_now env, device_type = None, screen_width = None, screen_height = None,
         window_width = Some (innerWidth env), window_height = Some (innerHeight env)\<rparr>] \<and>
   logs (handleCut env (Some t) s) =
      logs s @ [\<lparr>etype = ''clipboard'', data = [(''action'', JStr ''cut''), (''selection'', JNum (real (length t)))],
         timestamp = Date_now env, device_type = None, screen_width = None, screen_height = None,
         window_width = Some (innerWidth env), window_height = Some (innerHeight env)\<rparr>] \<and>
   logs (handlePaste env (Some t) s) =
      logs s @ [\<lparr>etype = ''clipboard'', data = [(''action'', JStr ''paste''), (''length'', JNum (real (length t)))],
         timestamp = Date_now env, device_type = None, screen_width = None, screen_height = None,
         window_width = Some (innerWidth env), window_height = Some (innerHeight env)\<rparr>] \<and>
   (length t = 50 \<longrightarrow> logs (handleCopy env (Some t) s) =
      logs s @ [\<lparr>etype = ''clipboard'', data = [(''action'', JStr ''copy''), (''selection'', JNum 50)],
         timestamp = Date_now env, device_type = None, screen_width = None, screen_height = None,
         window_width = Some (innerWidth env), window_height = Some (innerHeight env)\<rparr>])"
  by (simp add: handleCopy_def handleCut_def handlePaste_def text_length_def logEvent_def
      mkEvent_def)

theorem C7_clipboard_length_only_witness:
  "handleCopy (host 1000) (Some ''answer A'') init = handleCopy (host 1000) (Some ''answer B'') init \<and>
   logs (handleCopy (host 1000) (Some (replicate 50 CHR ''x'')) init) =
     [\<lparr>etype = ''clipboard'', data = [(''action'', JStr ''copy''), (''selection'', JNum 50)],
       timestamp = 1000, device_type = None, screen_width = None, screen_height = None,
       window_width = Some 1280, window_height = Some 720\<rparr>]"
  using C7_clipboard_length_only [of "''answer A''" "''answer B''" "host 1000" init "replicate 50 CHR ''x''"]
  by (simp add: init_def host_def)

text \<open>
  C9, as stated, fails. The handler tests \<^verbatim>\<open>event.key.length === 1\<close>, and the length of
  a string counts UTF-16 code units. One typed character outside the Basic Multilingual
  Plane is a key string of two code units, so it is logged as it is: the characters
  U+1F600 and U+1F601 (code units D83D DE00 and D83D DE01) give two different records,
  each holding the typed character.
\<close>

theorem C9_key_press_counterexample:
  "logs (handleKeyDown (host 1000) [0xD83D, 0xDE00] init) =
     [\<lparr>etype = ''key_press'', data = [(''key_type'', JStr16 [0xD83D, 0xDE00])],
         timestamp = 1000, device_type = None, screen_width = None, screen_height = None,
         window_width = Some 1280, window_height = Some 720\<rparr>] \<and>
   logs (handleKeyDown (host 1000) [0xD83D, 0xDE01] init) =
     [\<lparr>etype = ''key_press'', data = [(''key_type'', JStr16 [0xD83D, 0xDE01])],
         timestamp = 1000, device_type = None, screen_width = None, screen_height = None,
         window_width = Some 1280, window_height = Some 720\<rparr>] \<and>
   handleKeyDown (host 1000) [0xD83D, 0xDE00] init \<noteq> handleKeyDown (host 1000) [0xD83D, 0xDE01] init"
  by (simp add: handleKeyDown_def logEvent_def mkEvent_def resetInactivityTimer_def init_def
      host_def Let_def)

text \<open>
  C9, amended. A key-down notification appends one record of type \<open>key_press\<close> whose
  payload is \<open>key_type\<close> alone: the string \<open>character\<close> when the key string has length 1
  and the key string itself otherwise. Two key strings of length 1, that is two typed
  characters of one UTF-16 code unit each, give the same state after the handler, so
  such a character is not logged.
\<close>

theorem C9_key_press_type:
  "(length key = 1 \<longrightarrow> logs (handleKeyDown env key s) =
      logs s @ [\<lparr>etype = ''key_press'', data = [(''key_type'', JStr16 (utf16 ''character''))],
         timestamp = Date_now env, device_type = None, screen_width = None, screen_height = None,
         window_width = Some (innerWidth env), window_height = Some (innerHeight env)\<rparr>]) \<and>
   (length key \<noteq> 1 \<longrightarrow> logs (handleKeyDown env key s) =
      logs s @ [\<lparr>etype = ''key_press'', data = [(''key_type'', JStr16 key)],
         timestamp = Date_now env, device_type = None, screen_width = None, screen_height = None,
         window_width = Some (innerWidth env), window_height = Some (innerHeight env)\<rparr>]) \<and>
   (length k1 = 1 \<and> length k2 = 1 \<longrightarrow> handleKeyDown env k1 s = handleKeyDown env k2 s)"
  by (simp add: handleKeyDown_def logEvent_def mkEvent_def resetInactivityTimer_def Let_def)

theorem C9_key_press_type_witness:
  "handleKeyDown (host 1000) (utf16 ''a'') init = handleKeyDown (host 1000) (utf16 ''b'') init \<and>
   logs (handleKeyDown (host 1000) (utf16 ''a'') init) =
     [\<lparr>etype = ''key_press'', data = [(''key_type'', JStr16 [0x63, 0x68, 0x61, 0x72, 0x61, 0x63, 0x74, 0x65, 0x72])],
         timestamp = 1000, device_type = None, screen_width = None, screen_height = None,
         window_width = Some 1280, window_height = Some 720\<rparr>] \<and>
   logs (handleKeyDown (host 1000) (utf16 ''Enter'') init) =
     [\<lparr>etype = ''key_press'', data = [(''key_type'', JStr16 [0x45, 0x6E, 0x74, 0x65, 0x72])],
         timestamp = 1000, device_type = None, screen_width = None, screen_height = None,
         window_width = Some 1280, window_height = Some 720\<rparr>]"
proof -
  note k = C9_key_press_type [of "utf16 ''a''" "host 1000" init "utf16 ''a''" "utf16 ''b''"]
  note e = C9_key_press_type [of "utf16 ''Enter''" "host 1000" init "utf16 ''a''" "utf16 ''b''"]
  from k [THEN conjunct2, THEN conjunct2]
  have same: "handleKeyDown (host 1000) (utf16 ''a'') init = handleKeyDown (host 1000) (utf16 ''b'') init"
    by (simp add: utf16_def)
  from k [THEN conjunct1]
  have one: "logs (handleKeyDown (host 1000) (utf16 ''a'') init) =
     [\<lparr>etype = ''key_press'', data = [(''key_type'', JStr16 [0x63, 0x68, 0x61, 0x72, 0x61, 0x63, 0x74, 0x65, 0x72])],
         timestamp = 1000, device_type = None, screen_width = None, screen_height = None,
         window_width = Some 1280, window_height = Some 720\<rparr>]"
    by (simp add: init_def host_def utf16_def)
  from e [THEN conjunct2, THEN conjunct1]
  have named: "logs (handleKeyDown (host 1000) (utf16 ''Enter'') init) =
     [\<lparr>etype = ''key_press'', data = [(''key_type'', JStr16 [0x45, 0x6E, 0x74, 0x65, 0x72])],
         timestamp = 1000, device_type = None, screen_width = None, screen_height = None,
         window_width = Some 1280, window_height = Some 720\<rparr>]"
    by (simp add: init_def host_def utf16_def)
  from same one named show ?thesis by blast
qed

section \<open>Renders keep the callbacks in step with the focus flag and the device information\<close>

lemma rerender_isFocused [simp]: "isFocused (rerender s) = isFocused s"
  by (simp add: rerender_def effectCleanup_def)

lemma rerender_deviceInfo [simp]: "deviceInfo (rerender s) = deviceInfo s"
  by (simp add: rerender_def effectCleanup_def)

lemma rerender_synced:
  "cl_isFocused (closure (rerender s)) = isFocused s \<and> cl_deviceInfo (closure (rerender s)) = deviceInfo s"
  by (auto simp add: rerender_def effectCleanup_def depsChanged_def capture_def)

lemma notify_synced:
  "cl_isFocused (closure (notify ar env e s)) = isFocused (notify ar env e s) \<and>
   cl_deviceInfo (closure (notify ar env e s)) = deviceInfo (notify ar env e s)"
  using rerender_synced [of "handle ar env e s"] by (simp add: notify_def)

lemmas handler_defs = handleMouseMove_def handleKeyDown_def handleVisibilityChange_def
  handleCopy_def handlePaste_def handleCut_def handleResize_def handleFocus_def handleBlur_def
  inactivityCallback_def logEvent_def resetInactivityTimer_def

lemma notify_focus_step:
  assumes "cl_isFocused (closure s) = isFocused s" and "e \<noteq> IntervalTick"
  shows "length (filter isStateChange (logs (notify ar env e s))) =
           length (filter isStateChange (logs s)) + focusFlips (isFocused s) [e] \<and>
         isFocused (notify ar env e s) = (case e of Focus \<Rightarrow> True | Blur \<Rightarrow> False | _ \<Rightarrow> isFocused s)"
  using assms
  by (cases e) (simp_all add: notify_def handler_defs isStateChange_def mkEvent_def Let_def
      split: option.split)


lemma focusFlips_Cons: "focusFlips f (e # es) = focusFlips f [e] + focusFlips (nextFocus f e) es"
  by (cases e) (simp_all add: nextFocus_def)

lemma run_focus_flips:
  assumes "cl_isFocused (closure s) = isFocused s" and "list_all noTick (map snd es)"
  shows "length (filter isStateChange (logs (run ar es s))) =
           length (filter isStateChange (logs s)) + focusFlips (isFocused s) (map snd es)"
  using assms
proof (induction es arbitrary: s)
  case Nil
  show ?case by simp
next
  case (Cons a es)
  obtain env e where a: "a = (env, e)" by (cases a) auto
  from Cons.prems a have nt: "noTick e" and rest: "list_all noTick (map snd es)"
    by simp_all
  from nt have ne: "e \<noteq> IntervalTick" by (simp add: noTick_def)
  from notify_focus_step [OF Cons.prems(1) ne, of ar env]
  have step: "length (filter isStateChange (logs (notify ar env e s))) =
           length (filter isStateChange (logs s)) + focusFlips (isFocused s) [e]"
    and foc: "isFocused (notify ar env e s) = nextFocus (isFocused s) e"
    by (simp_all add: nextFocus_def)
  from notify_synced [of ar env e s] have "cl_isFocused (closure (notify ar env e s)) = isFocused (notify ar env e s)"
    by simp
  from Cons.IH [OF this rest] step foc
  show ?case by (simp add: a focusFlips_Cons [of _ e "map snd es"])
qed

text \<open>
  C6. Focus tracking is edge-triggered. From a state whose callbacks read the current
  focus flag (every state after a render), a run of notifications without a tick adds
  exactly one \<open>window_state_change\<close> record per flip of the flag. Two blur notifications
  in a row add one record when the window was focused and none when it was blurred, and
  the second of two equal notifications leaves the log as the first left it.
\<close>

theorem C6_focus_edge_triggered:
  assumes "cl_isFocused (closure s) = isFocused s"
  shows "(list_all noTick (map snd es) \<longrightarrow>
           length (filter isStateChange (logs (run ar es s))) =
             length (filter isStateChange (logs s)) + focusFlips (isFocused s) (map snd es)) \<and>
         length (filter isStateChange (logs (run ar [(env1, Blur), (env2, Blur)] s))) =
           length (filter isStateChange (logs s)) + (if isFocused s then 1 else 0) \<and>
         logs (run ar [(env1, Blur), (env2, Blur)] s) = logs (run ar [(env1, Blur)] s) \<and>
         logs (run ar [(env1, Focus), (env2, Focus)] s) = logs (run ar [(env1, Focus)] s)"
proof -
  have two: "list_all noTick (map snd [(env1, Blur), (env2, Blur)])" by (simp add: noTick_def)
  have b: "cl_isFocused (closure (notify ar env1 Blur s)) = isFocused (notify ar env1 Blur s)"
    "cl_isFocused (closure (notify ar env1 Focus s)) = isFocused (notify ar env1 Focus s)"
    using notify_synced by simp_all
  have fb: "\<not> isFocused (notify ar env1 Blur s)" "isFocused (notify ar env1 Focus s)"
    using assms by (simp_all add: notify_def handleBlur_def handleFocus_def logEvent_def)
  have "logs (notify ar env2 Blur (notify ar env1 Blur s)) = logs (notify ar env1 Blur s)"
    using b(1) fb(1) by (simp add: notify_def [of ar env2] handleBlur_def)
  moreover have "logs (notify ar env2 Focus (notify ar env1 Focus s)) = logs (notify ar env1 Focus s)"
    using b(2) fb(2) by (simp add: notify_def [of ar env2] handleFocus_def)
  ultimately show ?thesis
    using run_focus_flips [OF assms, of es ar] run_focus_flips [OF assms two, of ar] by simp
qed

lemmas run_defs = mount_def rerender_def depsChanged_def effectCleanup_def capture_def
  deviceInfoEffect_def init_def notify_def host_def handleBlur_def handleFocus_def logEvent_def
  mkEvent_def tick_def tickLogged_def analyzeMouse_def recentSamples_def withDeviceInfo_def
  handleKeyDown_def resetInactivityTimer_def inactivityCallback_def handleMouseMove_def
  MOUSE_THROTTLE_def tickEmits_def utf16_def Let_def

theorem C6_focus_edge_triggered_witness:
  "\<forall>ar. length (filter isStateChange (logs (run ar [(host 1000, Blur), (host 2000, Blur)]
      (mount (host 0) ''Mozilla/5.0'')))) = 1 \<and>
   length (filter isStateChange (logs (run ar [(host 1000, Blur), (host 2000, Blur), (host 3000, Focus),
      (host 4000, Focus), (host 5000, Blur)] (mount (host 0) ''Mozilla/5.0'')))) = 3"
proof
  fix ar
  have h: "cl_isFocused (closure (mount (host 0) ''Mozilla/5.0'')) = isFocused (mount (host 0) ''Mozilla/5.0'')"
    by (simp add: run_defs)
  have f: "isFocused (mount (host 0) ''Mozilla/5.0'')" "logs (mount (host 0) ''Mozilla/5.0'') = []"
    by (simp_all add: run_defs)
  note c6 = C6_focus_edge_triggered [OF h, of "[(host 1000, Blur), (host 2000, Blur), (host 3000, Focus),
      (host 4000, Focus), (host 5000, Blur)]" ar "host 1000" "host 2000"]
  from c6 [THEN conjunct1] f
  have many: "length (filter isStateChange (logs (run ar [(host 1000, Blur), (host 2000, Blur),
      (host 3000, Focus), (host 4000, Focus), (host 5000, Blur)] (mount (host 0) ''Mozilla/5.0'')))) = 3"
    by (simp add: noTick_def)
  from c6 [THEN conjunct2, THEN conjunct1] f
  have two: "length (filter isStateChange (logs (run ar [(host 1000, Blur), (host 2000, Blur)]
      (mount (host 0) ''Mozilla/5.0'')))) = 1"
    by simp
  from many two
  show "length (filter isStateChange (logs (run ar [(host 1000, Blur), (host 2000, Blur)]
      (mount (host 0) ''Mozilla/5.0'')))) = 1 \<and>
   length (filter isStateChange (logs (run ar [(host 1000, Blur), (host 2000, Blur), (host 3000, Focus),
      (host 4000, Focus), (host 5000, Blur)] (mount (host 0) ''Mozilla/5.0'')))) = 3"
    by blast
qed

section \<open>Enrichment at flush time\<close>

lemma handle_deviceInfo [simp]: "deviceInfo (handle ar env e s) = deviceInfo s"
  by (cases e) (simp_all add: handler_defs tick_def tickLogged_def analyzeMouse_def Let_def
      split: option.split)

lemma notify_deviceInfo [simp]: "deviceInfo (notify ar env e s) = deviceInfo s"
  by (simp add: notify_def)

lemma run_deviceInfo: "deviceInfo (run ar es s) = deviceInfo s"
proof (induction es arbitrary: s)
  case Nil
  show ?case by simp
next
  case (Cons a es)
  obtain env e where a: "a = (env, e)" by (cases a) auto
  from Cons.IH [of "notify ar env e s"] show ?case by (simp add: a)
qed

lemma run_synced_deviceInfo:
  "cl_deviceInfo (closure s) = deviceInfo s \<Longrightarrow>
     cl_deviceInfo (closure (run ar es s)) = deviceInfo (run ar es s)"
proof (induction es arbitrary: s)
  case Nil
  then show ?case by simp
next
  case (Cons a es)
  obtain env e where a: "a = (env, e)" by (cases a) auto
  from notify_synced [of ar env e s]
  have "cl_deviceInfo (closure (notify ar env e s)) = deviceInfo (notify ar env e s)" by simp
  from Cons.IH [OF this] show ?case by (simp add: a)
qed

lemma mount_deviceInfo:
  "deviceInfo (mount env0 ua) = Some (sessionInfo env0 ua) \<and>
   cl_deviceInfo (closure (mount env0 ua)) = Some (sessionInfo env0 ua)"
  using rerender_synced [of "deviceInfoEffect env0 ua init"]
  by (simp add: mount_def deviceInfoEffect_def sessionInfo_def)

lemma reachable_deviceInfo:
  "cl_deviceInfo (closure (run ar es (mount env0 ua))) = Some (sessionInfo env0 ua)"
  using run_synced_deviceInfo [of "mount env0 ua" ar es] run_deviceInfo [of ar es "mount env0 ua"]
    mount_deviceInfo [of env0 ua] by simp

text \<open>
  C10. In every state reached from mounting, a tick that publishes builds the batch from
  the log its callback reads by overwriting the five device fields with the device
  information stored at mount time. So \<open>window_width\<close> and \<open>window_height\<close> of every
  published record are the window size at mount time, whatever \<open>logEvent\<close> recorded, and
  the type, the payload and the timestamp of every record are unchanged.
\<close>

theorem C10_enrichment_overwrites_window_size:
  assumes "cl_logs (closure (run ar es (mount env0 ua))) \<noteq> []"
  shows "throttledLogs (tick ar env (run ar es (mount env0 ua))) =
           map (withDeviceInfo (Some (sessionInfo env0 ua))) (cl_logs (closure (run ar es (mount env0 ua)))) \<and>
         map etype (throttledLogs (tick ar env (run ar es (mount env0 ua)))) =
           map etype (cl_logs (closure (run ar es (mount env0 ua)))) \<and>
         map data (throttledLogs (tick ar env (run ar es (mount env0 ua)))) =
           map data (cl_logs (closure (run ar es (mount env0 ua)))) \<and>
         map timestamp (throttledLogs (tick ar env (run ar es (mount env0 ua)))) =
           map timestamp (cl_logs (closure (run ar es (mount env0 ua)))) \<and>
         (\<forall>r \<in> set (throttledLogs (tick ar env (run ar es (mount env0 ua)))).
            window_width r = Some (innerWidth env0) \<and> window_height r = Some (innerHeight env0))"
proof -
  have pub: "throttledLogs (tick ar env (run ar es (mount env0 ua))) =
      map (withDeviceInfo (Some (sessionInfo env0 ua))) (cl_logs (closure (run ar es (mount env0 ua))))"
    using assms reachable_deviceInfo [of ar es env0 ua]
    by (simp add: tick_def Let_def)
  show ?thesis
    unfolding pub by (simp add: withDeviceInfo_def sessionInfo_def comp_def)
qed

theorem C10_enrichment_overwrites_window_size_witness:
  "\<forall>ar. throttledLogs (tick ar (host 6000)
      (run ar [(\<lparr>Date_now = 1000, innerWidth = 800, innerHeight = 600, scr_width = 1920, scr_height = 1080\<rparr>, Blur)]
         (mount (host 0) ''Mozilla/5.0''))) =
     [\<lparr>etype = ''window_state_change'', data = [(''state'', JStr ''blurred'')], timestamp = 1000,
       device_type = Some ''desktop'', screen_width = Some 1920, screen_height = Some 1080,
       window_width = Some 1280, window_height = Some 720\<rparr>]"
proof
  fix ar
  have h: "cl_logs (closure (run ar [(\<lparr>Date_now = 1000, innerWidth = 800, innerHeight = 600, scr_width = 1920, scr_height = 1080\<rparr>, Blur)]
         (mount (host 0) ''Mozilla/5.0''))) =
       [\<lparr>etype = ''window_state_change'', data = [(''state'', JStr ''blurred'')], timestamp = 1000,
       device_type = None, screen_width = None, screen_height = None,
       window_width = Some 800, window_height = Some 600\<rparr>]"
    by (simp add: run_defs)
  have d: "detectDeviceType ''Mozilla/5.0'' = ''desktop''" by code_simp
  from h have ne: "cl_logs (closure (run ar [(\<lparr>Date_now = 1000, innerWidth = 800, innerHeight = 600, scr_width = 1920, scr_height = 1080\<rparr>, Blur)]
         (mount (host 0) ''Mozilla/5.0''))) \<noteq> []" by simp
  from C10_enrichment_overwrites_window_size [OF ne, of "host 6000"] h d
  show "throttledLogs (tick ar (host 6000)
      (run ar [(\<lparr>Date_now = 1000, innerWidth = 800, innerHeight = 600, scr_width = 1920, scr_height = 1080\<rparr>, Blur)]
         (mount (host 0) ''Mozilla/5.0''))) =
     [\<lparr>etype = ''window_state_change'', data = [(''state'', JStr ''blurred'')], timestamp = 1000,
       device_type = Some ''desktop'', screen_width = Some 1920, screen_height = Some 1080,
       window_width = Some 1280, window_height = Some 720\<rparr>]"
    by (simp add: withDeviceInfo_def sessionInfo_def host_def)
qed

section \<open>Pruning the position buffer\<close>

text \<open>
  What the tick does to the position buffer is decided by the log its callback reads:
  when that log is not empty no sample older than the 5000 ms before the tick remains,
  and when it is empty the tick changes nothing.
\<close>

lemma tick_prunes_by_captured_log:
  "(cl_logs (closure s) \<noteq> [] \<longrightarrow> noStaleSamples (Date_now env) (mousePositions (tick ar env s))) \<and>
   (cl_logs (closure s) = [] \<longrightarrow> tick ar env s = s)"
  by (simp add: tick_def noStaleSamples_def recentSamples_def list_all_iff Let_def)

text \<open>
  C3. The claim says that after every tick no retained sample is older than the trailing
  window. The guard \<^verbatim>\<open>if (logs.length > 0)\<close> around the pruning reads the constant
  \<^verbatim>\<open>logs\<close> of the tick's callback, and the callbacks registered at mount time read an
  empty log whatever is pending. After mounting, a pointer move at 1000 and the ticks at
  5000 and 10000, the pending log holds the \<open>mouse_move\<close> record at both ticks, neither
  tick prunes, and after the tick at 10000 the buffer still holds the sample of time
  1000, which is older than 5000.
\<close>

theorem C3_tick_keeps_stale_sample:
  "map etype (logs (run ar [(host 1000, MouseMove 5 5), (host 5000, IntervalTick)]
      (mount (host 0) ''Mozilla/5.0''))) = [''mouse_move''] \<and>
   mousePositions (run ar [(host 1000, MouseMove 5 5), (host 5000, IntervalTick),
      (host 10000, IntervalTick)] (mount (host 0) ''Mozilla/5.0'')) =
     [\<lparr>pos_x = 5, pos_y = 5, pos_timestamp = 1000\<rparr>] \<and>
   \<not> noStaleSamples 10000 (mousePositions (run ar [(host 1000, MouseMove 5 5),
      (host 5000, IntervalTick), (host 10000, IntervalTick)] (mount (host 0) ''Mozilla/5.0'')))"
  by (simp add: run_defs noStaleSamples_def)

section \<open>The window analysis\<close>

lemma findIndex_find:
  "(findIndex P xs \<ge> 0 \<longrightarrow> find P xs = Some (xs ! nat (findIndex P xs))) \<and>
   (\<not> findIndex P xs \<ge> 0 \<longrightarrow> find P xs = None)"
proof (induction xs)
  case Nil
  show ?case by simp
next
  case (Cons x xs)
  show ?case
  proof (cases "P x")
    case True
    then show ?thesis by simp
  next
    case False
    show ?thesis
    proof (cases "findIndex P xs \<ge> 0")
      case True
      then have "nat (findIndex P xs + 1) = Suc (nat (findIndex P xs))" by simp
      with Cons True \<open>\<not> P x\<close> show ?thesis by (simp add: Let_def)
    next
      case False
      with Cons \<open>\<not> P x\<close> show ?thesis by (simp add: Let_def)
    qed
  qed
qed

lemma second2_is_refS2:
  assumes "retained \<noteq> []"
  shows "(findIndex (\<lambda>pos. pos_timestamp pos \<ge> w) retained \<ge> 0 \<longrightarrow>
            retained ! nat (findIndex (\<lambda>pos. pos_timestamp pos \<ge> w) retained) = refS2 (w - 2000) retained) \<and>
         (\<not> findIndex (\<lambda>pos. pos_timestamp pos \<ge> w) retained \<ge> 0 \<longrightarrow>
            retained ! 0 = refS2 (w - 2000) retained)"
  using findIndex_find [of "\<lambda>pos. pos_timestamp pos \<ge> w" retained] assms
  by (simp add: refS2_def hd_conv_nth)

text \<open>
  What a tick emits is decided by the values its callback reads: the analysis takes the
  samples of the captured position buffer that lie in the window, picks S2 and S5 as the
  specification says and emits one record; the \<open>focus_state\<close> record follows.
\<close>

lemma analyzeMouse_logs:
  "logs (analyzeMouse ar env c s) =
     logs s @ (let retained = recentSamples (Date_now env - 5000) (cl_mousePositions c) in
               if length retained \<ge> 2
               then [analysisRecord ar env (cl_deviceInfo c) (refS2 (Date_now env - 5000) retained) (refS5 retained)]
               else [])"
proof (cases "length (recentSamples (Date_now env - 5000) (cl_mousePositions c)) \<ge> 2")
  case True
  then have ne: "recentSamples (Date_now env - 5000) (cl_mousePositions c) \<noteq> []" by auto
  show ?thesis
    using True second2_is_refS2 [OF ne, of "Date_now env - 3000"]
    by (simp add: analyzeMouse_def Let_def logEvent_def analysisRecord_def euclid_def
        refS5_def last_conv_nth [OF ne])
next
  case False
  then show ?thesis by (simp add: analyzeMouse_def Let_def)
qed

lemma tickEmits_eq:
  "tickEmits ar env s =
     (if cl_logs (closure s) \<noteq> [] then
        (let retained = recentSamples (Date_now env - 5000) (cl_mousePositions (closure s)) in
         if length retained \<ge> 2
         then [analysisRecord ar env (cl_deviceInfo (closure s)) (refS2 (Date_now env - 5000) retained) (refS5 retained)]
         else []) @ [mkEvent env ''focus_state'' [(''isFocused'', JBool (cl_isFocused (closure s)))]]
      else [])"
  by (simp add: tickEmits_def tickLogged_def Let_def logEvent_def analyzeMouse_logs)

text \<open>
  C2. The claim says that a tick with at least two retained samples in the trailing
  5000 ms emits one \<open>mouse_analysis\<close> record. The tick analyses the constant
  \<^verbatim>\<open>mousePositions\<close> of its callback, inside a guard on the constant \<^verbatim>\<open>logs\<close> of its
  callback, and neither is a dependency of the effect. The callbacks registered at mount
  time read an empty log and an empty buffer: after mounting, the tick at 5000 and
  pointer moves at 6000 and 7000, the pending log holds two records and the buffer two
  samples of the window at the tick of 10000, and the tick emits nothing. After a blur
  at 1000 the callbacks read a log that is not empty and an empty buffer: after pointer
  moves at 2000 and 4000 the tick at 6000 has two samples of its window in the buffer
  and emits the \<open>focus_state\<close> record alone.
\<close>

theorem C2_analysis_reads_captured_samples:
  "map etype (logs (run ar [(host 5000, IntervalTick), (host 6000, MouseMove 0 0),
      (host 7000, MouseMove 300 400)] (mount (host 0) ''Mozilla/5.0''))) =
     [''mouse_move'', ''mouse_move''] \<and>
   recentSamples (10000 - 5000) (mousePositions (run ar [(host 5000, IntervalTick),
      (host 6000, MouseMove 0 0), (host 7000, MouseMove 300 400)] (mount (host 0) ''Mozilla/5.0''))) =
     [\<lparr>pos_x = 0, pos_y = 0, pos_timestamp = 6000\<rparr>,
      \<lparr>pos_x = 300, pos_y = 400, pos_timestamp = 7000\<rparr>] \<and>
   tickEmits ar (host 10000) (run ar [(host 5000, IntervalTick), (host 6000, MouseMove 0 0),
      (host 7000, MouseMove 300 400)] (mount (host 0) ''Mozilla/5.0'')) = [] \<and>
   recentSamples (6000 - 5000) (mousePositions (run ar [(host 1000, Blur),
      (host 2000, MouseMove 0 0), (host 4000, MouseMove 300 400)] (mount (host 0) ''Mozilla/5.0''))) =
     [\<lparr>pos_x = 0, pos_y = 0, pos_timestamp = 2000\<rparr>,
      \<lparr>pos_x = 300, pos_y = 400, pos_timestamp = 4000\<rparr>] \<and>
   map etype (tickEmits ar (host 6000) (run ar [(host 1000, Blur), (host 2000, MouseMove 0 0),
      (host 4000, MouseMove 300 400)] (mount (host 0) ''Mozilla/5.0''))) = [''focus_state'']"
  by (simp add: run_defs)

section \<open>What a tick publishes\<close>

text \<open>
  C1. The claim says that the batch of a tick holds the records pending at tick time,
  the records emitted during the tick included, and that no record is lost. The code
  builds the batch from the constant \<^verbatim>\<open>logs\<close> of the callback, which \<^verbatim>\<open>logEvent\<close> does
  not change, and then resets the pending log. After mounting and a blur at time 1000
  the pending log holds one record. The tick at 6000 emits a \<open>focus_state\<close> record, the
  batch holds the \<open>window_state_change\<close> record alone, and the pending log is empty
  afterwards: the \<open>focus_state\<close> record is in no batch and will be in none.
\<close>

theorem C1_tick_loses_emitted_records:
  "logs (run ar [(host 1000, Blur)] (mount (host 0) ''Mozilla/5.0'')) =
     [mkEvent (host 1000) ''window_state_change'' [(''state'', JStr ''blurred'')]] \<and>
   tickEmits ar (host 6000) (run ar [(host 1000, Blur)] (mount (host 0) ''Mozilla/5.0'')) =
     [mkEvent (host 6000) ''focus_state'' [(''isFocused'', JBool False)]] \<and>
   throttledLogs (run ar [(host 1000, Blur), (host 6000, IntervalTick)] (mount (host 0) ''Mozilla/5.0'')) =
     [withDeviceInfo (Some (sessionInfo (host 0) ''Mozilla/5.0''))
        (mkEvent (host 1000) ''window_state_change'' [(''state'', JStr ''blurred'')])] \<and>
   logs (run ar [(host 1000, Blur), (host 6000, IntervalTick)] (mount (host 0) ''Mozilla/5.0'')) = []"
  by (simp add: run_defs sessionInfo_def)

text \<open>
  Two more runs show what the captured log does to later ticks. The callbacks registered
  at mount time read an empty log, so a tick publishes nothing while the focus flag has
  not changed, whatever is pending. After a focus change the callbacks read the log of
  that render at every tick: the same batch is published again and the records logged
  in between are dropped by the reset.
\<close>

lemma tick_reads_log_of_mount:
  "throttledLogs (run ar [(host 1000, KeyDown (utf16 ''a'')), (host 5000, IntervalTick)]
      (mount (host 0) ''Mozilla/5.0'')) = [] \<and>
   logs (run ar [(host 1000, KeyDown (utf16 ''a'')), (host 5000, IntervalTick)]
      (mount (host 0) ''Mozilla/5.0'')) =
     [mkEvent (host 1000) ''key_press'' [(''key_type'', JStr16 (utf16 ''character''))]]"
  by (simp add: run_defs)

lemma tick_publishes_captured_log_again:
  "throttledLogs (run ar [(host 1000, Blur), (host 6000, IntervalTick), (host 7000, KeyDown (utf16 ''a'')),
      (host 11000, IntervalTick)] (mount (host 0) ''Mozilla/5.0'')) =
     [withDeviceInfo (Some (sessionInfo (host 0) ''Mozilla/5.0''))
        (mkEvent (host 1000) ''window_state_change'' [(''state'', JStr ''blurred'')])] \<and>
   logs (run ar [(host 1000, Blur), (host 6000, IntervalTick), (host 7000, KeyDown (utf16 ''a'')),
      (host 11000, IntervalTick)] (mount (host 0) ''Mozilla/5.0'')) = []"
  by (simp add: run_defs sessionInfo_def)

section \<open>The inactivity watchdog\<close>

text \<open>
  What the handlers do to the single timeout: accepted activity replaces the pending
  timeout by one that is due 3000 ms later, and the callback of a due timeout appends one
  \<open>inactivity\<close> record with \<open>duration = 3000\<close> and leaves no timeout pending.
\<close>

lemma activity_reschedules:
  "inactivityTimer (handleKeyDown env key s) = Some (Date_now env + 3000) \<and>
   (Date_now env - lastMouseMoveTime s \<ge> 500 \<longrightarrow>
      inactivityTimer (handleMouseMove env x y s) = Some (Date_now env + 3000))"
  by (simp add: handleKeyDown_def handleMouseMove_def MOUSE_THROTTLE_def logEvent_def
      resetInactivityTimer_def Let_def)

lemma due_timeout_fires_once:
  "inactivityTimer s = Some due \<Longrightarrow> due \<le> Date_now env \<Longrightarrow>
     logs (inactivityCallback env s) = logs s @ [mkEvent env ''inactivity'' [(''duration'', JNum 3000)]] \<and>
     inactivityTimer (inactivityCallback env s) = None \<and>
     inactivityCallback env' (inactivityCallback env s) = inactivityCallback env s"
  by (simp add: inactivityCallback_def logEvent_def)

text \<open>
  C5. The claim says that every accepted key press or pointer move that is followed by
  3000 ms without accepted activity gives exactly one \<open>inactivity\<close> record. The effect
  that registers the listeners has \<^verbatim>\<open>isFocused\<close> among its dependencies and its cleanup
  clears the pending timeout, so a focus change in the quiet period cancels the timeout
  and nothing schedules a new one. A key press at 1000 schedules the timeout for 4000; a
  blur at 2000 clears it; at 4000 nothing fires and the log holds no \<open>inactivity\<close>
  record. Without the blur the record is there.
\<close>

theorem C5_focus_change_cancels_timeout:
  "inactivityTimer (run ar [(host 1000, KeyDown (utf16 ''a''))] (mount (host 0) ''Mozilla/5.0'')) = Some 4000 \<and>
   inactivityTimer (run ar [(host 1000, KeyDown (utf16 ''a'')), (host 2000, Blur)]
      (mount (host 0) ''Mozilla/5.0'')) = None \<and>
   logs (run ar [(host 1000, KeyDown (utf16 ''a'')), (host 2000, Blur), (host 4000, InactivityTimeout)]
      (mount (host 0) ''Mozilla/5.0'')) =
     [mkEvent (host 1000) ''key_press'' [(''key_type'', JStr16 (utf16 ''character''))],
      mkEvent (host 2000) ''window_state_change'' [(''state'', JStr ''blurred'')]] \<and>
   logs (run ar [(host 1000, KeyDown (utf16 ''a'')), (host 4000, InactivityTimeout)]
      (mount (host 0) ''Mozilla/5.0'')) =
     [mkEvent (host 1000) ''key_press'' [(''key_type'', JStr16 (utf16 ''character''))],
      mkEvent (host 4000) ''inactivity'' [(''duration'', JNum 3000)]]"
  by (simp add: run_defs)

end
